theory Spec2Isabelle
  imports Main "HOL-Library.Char_ord" "HOL-Library.List_Lexorder"
begin

section \<open>Common Python values\<close>

text \<open>
  Python \<open>bytes\<close> and \<open>str\<close> are both lists of 8-bit characters here; a \<open>str\<close> is
  read as its UTF-8 encoding, whose bytewise lexicographic order is the code point order
  Python compares strings by. Exceptions are values of \<open>py_error\<close>; an operation returns
  its outcome together with the state it leaves behind, so that what was mutated before a
  \<open>raise\<close> stays visible.
\<close>

type_synonym bytes = string

datatype py_error =
    ValueError string
  | RuntimeError string
  | AssertionError string
  | KeyError string
  | TypeError

section \<open>The ASGI transport\<close>

text \<open>
  A message handed to a \<open>send\<close> callable is either the \<open>http.response.start\<close> frame
  (header list and status) or a \<open>http.response.body\<close> frame (body and \<open>more_body\<close>).
  A \<open>send\<close> callable is identified by the number of the channel it writes to; the
  transport keeps, per channel, the frames received so far, oldest first.
\<close>

datatype frame =
    ResponseStart "(bytes \<times> bytes) list" "int option"
  | ResponseBody bytes bool

type_synonym chan = nat
type_synonym ref = nat

section \<open>AsgiStreamWriter\<close>

text \<open>
  Instance attributes of \<open>AsgiStreamWriter\<close>: the \<open>send\<close> callable, the unbounded FIFO
  queue \<open>_buffer\<close> (oldest chunk first) and the flag \<open>eof\<close>. The class attributes
  \<open>buffer_size\<close>, \<open>output_size\<close> and \<open>length\<close> are never assigned on an instance, so
  reading them on an instance yields the class constant.
\<close>

record AsgiStreamWriter =
  send :: chan
  buffer :: "bytes list"
  eof :: bool

definition output_size :: nat where
  "output_size = 0"

text \<open>
  Writer objects live in a store indexed by reference, since the response and its caller
  share one writer instance. \<open>next_writer\<close> is the next unused reference and
  \<open>hook_calls\<close> counts the invocations of the request's prepare hook.
\<close>

record world =
  writers :: "ref \<Rightarrow> AsgiStreamWriter"
  next_writer :: ref
  transport :: "chan \<Rightarrow> frame list"
  hook_calls :: nat

definition AsgiStreamWriter_init :: "chan \<Rightarrow> AsgiStreamWriter" where
  "AsgiStreamWriter_init snd_to = \<lparr>send = snd_to, buffer = [], eof = False\<rparr>"

definition new_writer :: "chan \<Rightarrow> world \<Rightarrow> ref \<times> world" where
  "new_writer snd_to w =
     (next_writer w,
      w\<lparr>writers := (writers w)(next_writer w := AsgiStreamWriter_init snd_to),
        next_writer := Suc (next_writer w)\<rparr>)"

definition send_frame :: "chan \<Rightarrow> frame \<Rightarrow> world \<Rightarrow> world" where
  "send_frame c f w = w\<lparr>transport := (transport w)(c := transport w c @ [f])\<rparr>"

definition AsgiStreamWriter_write :: "ref \<Rightarrow> bytes \<Rightarrow> world \<Rightarrow> world" where
  "AsgiStreamWriter_write self chunk w =
     w\<lparr>writers := (writers w)(self :=
          (writers w self)\<lparr>buffer := buffer (writers w self) @ [chunk]\<rparr>)\<rparr>"

text \<open>The \<open>while not self._buffer.empty()\<close> loop of \<open>drain\<close>.\<close>

function drain_loop :: "ref \<Rightarrow> world \<Rightarrow> world" where
  "drain_loop self w =
     (if buffer (writers w self) = [] then w
      else
        let body = hd (buffer (writers w self));
            w1 = w\<lparr>writers := (writers w)(self :=
                    (writers w self)\<lparr>buffer := tl (buffer (writers w self))\<rparr>)\<rparr>;
            w2 = send_frame (send (writers w1 self)) (ResponseBody body True) w1
        in drain_loop self w2)"
  by pat_completeness auto
termination
  by (relation "measure (\<lambda>(self, w). length (buffer (writers w self)))")
     (auto simp: send_frame_def)

declare drain_loop.simps [simp del]

definition AsgiStreamWriter_drain :: "ref \<Rightarrow> world \<Rightarrow> world" where
  "AsgiStreamWriter_drain self w =
     (let w1 = drain_loop self w
      in if eof (writers w1 self)
         then send_frame (send (writers w1 self)) (ResponseBody [] False) w1
         else w1)"

definition AsgiStreamWriter_write_eof :: "ref \<Rightarrow> bytes \<Rightarrow> world \<Rightarrow> world" where
  "AsgiStreamWriter_write_eof self chunk w =
     (let w1 = AsgiStreamWriter_write self chunk w;
          w2 = w1\<lparr>writers := (writers w1)(self := (writers w1 self)\<lparr>eof := True\<rparr>)\<rparr>
      in AsgiStreamWriter_drain self w2)"

text \<open>A sequence of calls on one writer.\<close>

datatype writer_call = Write bytes | WriteEof bytes | Drain

fun run_call :: "ref \<Rightarrow> writer_call \<Rightarrow> world \<Rightarrow> world" where
  "run_call self (Write chunk) w = AsgiStreamWriter_write self chunk w"
| "run_call self (WriteEof chunk) w = AsgiStreamWriter_write_eof self chunk w"
| "run_call self Drain w = AsgiStreamWriter_drain self w"

fun run_calls :: "ref \<Rightarrow> writer_call list \<Rightarrow> world \<Rightarrow> world" where
  "run_calls self [] w = w"
| "run_calls self (c # cs) w = run_calls self cs (run_call self c w)"

fun is_eof_frame :: "frame \<Rightarrow> bool" where
  "is_eof_frame (ResponseBody body more_body) = (\<not> more_body)"
| "is_eof_frame (ResponseStart hs st) = False"

definition eof_frames :: "frame list \<Rightarrow> nat" where
  "eof_frames fs = length (filter is_eof_frame fs)"

fun is_drain :: "writer_call \<Rightarrow> bool" where
  "is_drain Drain = True"
| "is_drain c = False"

fun is_write_eof :: "writer_call \<Rightarrow> bool" where
  "is_write_eof (WriteEof chunk) = True"
| "is_write_eof c = False"

text \<open>A world in which no frame was sent, no hook was called and no writer is allocated:
  \<open>new_writer\<close> allocates from reference \<open>0\<close>, and every cell of the store holds a
  placeholder until then.\<close>

definition no_frames :: "chan \<Rightarrow> frame list" where
  "no_frames c = []"

definition fresh_writers :: "ref \<Rightarrow> AsgiStreamWriter" where
  "fresh_writers r = AsgiStreamWriter_init 0"

definition world0 :: world where
  "world0 = \<lparr>writers = fresh_writers, next_writer = 0, transport = no_frames, hook_calls = 0\<rparr>"

section \<open>Strings and header multidicts\<close>

text \<open>
  Case mapping of ASCII letters; other bytes are left alone. \<open>ascii_lower\<close> folds the
  case of header names. Python's \<open>str.upper\<close> follows the Unicode tables, so wherever the
  source calls it, it is a parameter \<open>str_upper\<close> of the model; \<open>upper_ascii\<close> is what
  \<open>str.upper\<close> does to a string of ASCII characters, and stands for it only in concrete
  runs on such strings.
\<close>

definition ascii_upper :: "char \<Rightarrow> char" where
  "ascii_upper c =
     (let n = (of_char c :: nat) in if 97 \<le> n \<and> n \<le> 122 then char_of (n - 32) else c)"

definition ascii_lower :: "char \<Rightarrow> char" where
  "ascii_lower c =
     (let n = (of_char c :: nat) in if 65 \<le> n \<and> n \<le> 90 then char_of (n + 32) else c)"

definition upper_ascii :: "string \<Rightarrow> string" where
  "upper_ascii s = map ascii_upper s"

text \<open>\<open>sep.join(xs)\<close>.\<close>

fun join :: "string \<Rightarrow> string list \<Rightarrow> string" where
  "join sep [] = []"
| "join sep [x] = x"
| "join sep (x # y # ys) = x @ sep @ join sep (y # ys)"

text \<open>
  \<open>CIMultiDict\<close> of the \<open>multidict\<close> library: an ordered list of (key, value) entries
  whose keys are compared without regard to case. \<open>d[key]\<close> reads the first entry of the
  key, \<open>d[key] = value\<close> overwrites the first entry of the key and deletes its later
  ones, or appends when there is none, and \<open>setdefault\<close> appends only when the key is
  absent.
\<close>

type_synonym headers = "(string \<times> string) list"

definition ci_eq :: "string \<Rightarrow> string \<Rightarrow> bool" where
  "ci_eq a b = (map ascii_lower a = map ascii_lower b)"

definition CIMultiDict :: "(string \<times> string) list \<Rightarrow> headers" where
  "CIMultiDict items = items"

fun md_getitem :: "headers \<Rightarrow> string \<Rightarrow> py_error + string" where
  "md_getitem [] key = Inl (KeyError key)"
| "md_getitem ((k, v) # rest) key = (if ci_eq k key then Inr v else md_getitem rest key)"

fun md_setitem :: "headers \<Rightarrow> string \<Rightarrow> string \<Rightarrow> headers" where
  "md_setitem [] key val = [(key, val)]"
| "md_setitem ((k, v) # rest) key val =
     (if ci_eq k key then (key, val) # filter (\<lambda>(k', v'). \<not> ci_eq k' key) rest
      else (k, v) # md_setitem rest key val)"

fun md_setdefault :: "headers \<Rightarrow> string \<Rightarrow> string \<Rightarrow> headers" where
  "md_setdefault [] key val = [(key, val)]"
| "md_setdefault ((k, v) # rest) key val =
     (if ci_eq k key then (k, v) # rest else (k, v) # md_setdefault rest key val)"

section \<open>Response and its status subclasses\<close>

text \<open>The content of a response is a JSON document: a \<open>dict\<close> with string keys.\<close>

datatype json =
    JNull
  | JBool bool
  | JInt int
  | JStr string
  | JList "json list"
  | JDict "(string \<times> json) list"

type_synonym content = "(string \<times> json) list"

text \<open>
  The classes of the module that derive from \<open>Response\<close> and construct their instances
  through \<open>Response.__init__\<close>, directly or by \<open>super().__init__\<close>. (\<open>RawResponse\<close>
  replaces the constructor without calling it and is modelled apart; \<open>_HTTPMove\<close> is
  written \<open>HTTPMove\<close>.)
  \<open>status_code_of\<close> and \<open>empty_body_of\<close> are the class attributes \<open>status_code\<close> and
  \<open>empty_body\<close> as attribute lookup finds them, inherited ones included;
  \<open>default_content\<close> is \<open>{}\<close> in every class.
\<close>

datatype response_class =
    Response
  | ErrorResponse
  | HTTPError
  | HTTPRedirection
  | HTTPSuccessful
  | HTTPOk
  | HTTPCreated
  | HTTPAccepted
  | HTTPNonAuthoritativeInformation
  | HTTPNoContent
  | HTTPResetContent
  | HTTPPartialContent
  | HTTPMove
  | HTTPMultipleChoices
  | HTTPMovedPermanently
  | HTTPFound
  | HTTPSeeOther
  | HTTPNotModified
  | HTTPUseProxy
  | HTTPTemporaryRedirect
  | HTTPPermanentRedirect
  | HTTPClientError
  | HTTPBadRequest
  | HTTPUnauthorized
  | HTTPPaymentRequired
  | HTTPForbidden
  | HTTPNotFound
  | InvalidRoute
  | HTTPMethodNotAllowed
  | HTTPNotAcceptable
  | HTTPProxyAuthenticationRequired
  | HTTPRequestTimeout
  | HTTPConflict
  | HTTPGone
  | HTTPLengthRequired
  | HTTPPreconditionFailed
  | HTTPRequestEntityTooLarge
  | HTTPRequestURITooLong
  | HTTPUnsupportedMediaType
  | HTTPRequestRangeNotSatisfiable
  | HTTPExpectationFailed
  | HTTPMisdirectedRequest
  | HTTPUnprocessableEntity
  | HTTPFailedDependency
  | HTTPUpgradeRequired
  | HTTPPreconditionRequired
  | HTTPTooManyRequests
  | HTTPRequestHeaderFieldsTooLarge
  | HTTPUnavailableForLegalReasons
  | HTTPServerError
  | HTTPInternalServerError
  | HTTPNotImplemented
  | HTTPBadGateway
  | HTTPServiceUnavailable
  | HTTPGatewayTimeout
  | HTTPVersionNotSupported
  | HTTPVariantAlsoNegotiates
  | HTTPInsufficientStorage
  | HTTPNotExtended
  | HTTPNetworkAuthenticationRequired

fun status_code_of :: "response_class \<Rightarrow> int option" where
  "status_code_of Response = None"
| "status_code_of ErrorResponse = None"
| "status_code_of HTTPError = None"
| "status_code_of HTTPRedirection = None"
| "status_code_of HTTPSuccessful = None"
| "status_code_of HTTPOk = Some 200"
| "status_code_of HTTPCreated = Some 201"
| "status_code_of HTTPAccepted = Some 202"
| "status_code_of HTTPNonAuthoritativeInformation = Some 203"
| "status_code_of HTTPNoContent = Some 204"
| "status_code_of HTTPResetContent = Some 205"
| "status_code_of HTTPPartialContent = Some 206"
| "status_code_of HTTPMove = None"
| "status_code_of HTTPMultipleChoices = Some 300"
| "status_code_of HTTPMovedPermanently = Some 301"
| "status_code_of HTTPFound = Some 302"
| "status_code_of HTTPSeeOther = Some 303"
| "status_code_of HTTPNotModified = Some 304"
| "status_code_of HTTPUseProxy = Some 305"
| "status_code_of HTTPTemporaryRedirect = Some 307"
| "status_code_of HTTPPermanentRedirect = Some 308"
| "status_code_of HTTPClientError = None"
| "status_code_of HTTPBadRequest = Some 400"
| "status_code_of HTTPUnauthorized = Some 401"
| "status_code_of HTTPPaymentRequired = Some 402"
| "status_code_of HTTPForbidden = Some 403"
| "status_code_of HTTPNotFound = Some 404"
| "status_code_of InvalidRoute = Some 404"
| "status_code_of HTTPMethodNotAllowed = Some 405"
| "status_code_of HTTPNotAcceptable = Some 406"
| "status_code_of HTTPProxyAuthenticationRequired = Some 407"
| "status_code_of HTTPRequestTimeout = Some 408"
| "status_code_of HTTPConflict = Some 409"
| "status_code_of HTTPGone = Some 410"
| "status_code_of HTTPLengthRequired = Some 411"
| "status_code_of HTTPPreconditionFailed = Some 412"
| "status_code_of HTTPRequestEntityTooLarge = Some 413"
| "status_code_of HTTPRequestURITooLong = Some 414"
| "status_code_of HTTPUnsupportedMediaType = Some 415"
| "status_code_of HTTPRequestRangeNotSatisfiable = Some 416"
| "status_code_of HTTPExpectationFailed = Some 417"
| "status_code_of HTTPMisdirectedRequest = Some 421"
| "status_code_of HTTPUnprocessableEntity = Some 422"
| "status_code_of HTTPFailedDependency = Some 424"
| "status_code_of HTTPUpgradeRequired = Some 426"
| "status_code_of HTTPPreconditionRequired = Some 428"
| "status_code_of HTTPTooManyRequests = Some 429"
| "status_code_of HTTPRequestHeaderFieldsTooLarge = Some 431"
| "status_code_of HTTPUnavailableForLegalReasons = Some 451"
| "status_code_of HTTPServerError = None"
| "status_code_of HTTPInternalServerError = Some 500"
| "status_code_of HTTPNotImplemented = Some 501"
| "status_code_of HTTPBadGateway = Some 502"
| "status_code_of HTTPServiceUnavailable = Some 503"
| "status_code_of HTTPGatewayTimeout = Some 504"
| "status_code_of HTTPVersionNotSupported = Some 505"
| "status_code_of HTTPVariantAlsoNegotiates = Some 506"
| "status_code_of HTTPInsufficientStorage = Some 507"
| "status_code_of HTTPNotExtended = Some 510"
| "status_code_of HTTPNetworkAuthenticationRequired = Some 511"

fun empty_body_of :: "response_class \<Rightarrow> bool" where
  "empty_body_of HTTPNoContent = True"
| "empty_body_of HTTPResetContent = True"
| "empty_body_of HTTPNotModified = True"
| "empty_body_of cls = False"

definition default_content :: content where
  "default_content = []"

record response =
  content :: "content option"
  headers :: headers
  status_code :: "int option"

text \<open>\<open>content or self.default_content.copy()\<close>: \<open>None\<close> and the empty dict are falsy.\<close>

definition content_or_default :: "content option \<Rightarrow> content" where
  "content_or_default c =
     (case c of None \<Rightarrow> default_content
      | Some d \<Rightarrow> if d = [] then default_content else d)"

text \<open>\<open>if self.status_code:\<close> on the class attribute: \<open>None\<close> and \<open>0\<close> are falsy.\<close>

definition status_truthy :: "int option \<Rightarrow> bool" where
  "status_truthy st = (case st of None \<Rightarrow> False | Some c \<Rightarrow> c \<noteq> 0)"

definition Response_init ::
  "response_class \<Rightarrow> content option \<Rightarrow> (string \<times> string) list option \<Rightarrow> int option
    \<Rightarrow> py_error + response" where
  "Response_init cls content_arg headers_arg status =
     (let content1 = (if empty_body_of cls then None else Some (content_or_default content_arg));
          headers1 = (case headers_arg of None \<Rightarrow> CIMultiDict [] | Some h \<Rightarrow> CIMultiDict h)
      in case status of
           None \<Rightarrow>
             Inr \<lparr>content = content1, headers = headers1, status_code = status_code_of cls\<rparr>
         | Some st \<Rightarrow>
             if status_truthy (status_code_of cls)
             then Inl (ValueError ''Can not customize status code of this type'')
             else Inr \<lparr>content = (if st = 204 \<or> st = 205 then None else content1),
                       headers = headers1, status_code = Some st\<rparr>)"

text \<open>
  \<open>_HTTPMove.__init__(location, *, content, headers)\<close>, the constructor of the redirect
  classes: it takes no \<open>status\<close> and rejects a falsy location first.
\<close>

record http_move = response +
  location :: string

definition HTTPMove_init ::
  "response_class \<Rightarrow> string \<Rightarrow> content option \<Rightarrow> (string \<times> string) list option
    \<Rightarrow> py_error + http_move" where
  "HTTPMove_init cls loc content_arg headers_arg =
     (if loc = [] then Inl (ValueError ''HTTP redirects need a location to redirect to.'')
      else case Response_init cls content_arg headers_arg None of
             Inl e \<Rightarrow> Inl e
           | Inr r \<Rightarrow>
               Inr \<lparr>content = content r,
                    headers = md_setitem (headers r) ''Location'' loc,
                    status_code = status_code r,
                    location = loc\<rparr>)"

text \<open>
  \<open>HTTPMethodNotAllowed.__init__(method, allowed_methods, *, content, headers)\<close>; the
  attribute \<open>self.method\<close> is the field \<open>rejected_method\<close>.
\<close>

record method_not_allowed = response +
  allowed_methods :: "string list"
  rejected_method :: string

definition HTTPMethodNotAllowed_init ::
  "(string \<Rightarrow> string) \<Rightarrow> string \<Rightarrow> string list \<Rightarrow> content option
    \<Rightarrow> (string \<times> string) list option \<Rightarrow> py_error + method_not_allowed" where
  "HTTPMethodNotAllowed_init str_upper meth allowed content_arg headers_arg =
     (let allow = join '','' (sort allowed)
      in case Response_init HTTPMethodNotAllowed content_arg headers_arg None of
           Inl e \<Rightarrow> Inl e
         | Inr r \<Rightarrow>
             Inr \<lparr>content = content r,
                  headers = md_setitem (headers r) ''Allow'' allow,
                  status_code = status_code r,
                  allowed_methods = allowed,
                  rejected_method = str_upper meth\<rparr>)"











text \<open>
  \<open>RawResponse.__init__(*, content, headers, status)\<close>, which replaces the constructor of
  \<open>Response\<close> without calling it: the content is \<open>bytes\<close>, \<open>content or b''\<close> makes \<open>None\<close>
  the empty bytes, and the status is stored as passed. \<open>RawResponse\<close> inherits
  \<open>empty_body = False\<close> and has no subclass in the module.
\<close>

record raw_response =
  raw_content :: bytes
  raw_headers :: headers
  raw_status_code :: "int option"

definition RawResponse_empty_body :: bool where
  "RawResponse_empty_body = False"

definition RawResponse_init ::
  "bytes option \<Rightarrow> (string \<times> string) list option \<Rightarrow> int option \<Rightarrow> raw_response" where
  "RawResponse_init content_arg headers_arg status =
     \<lparr>raw_content =
        (if RawResponse_empty_body then []
         else case content_arg of None \<Rightarrow> [] | Some b \<Rightarrow> if b = [] then [] else b),
      raw_headers = (case headers_arg of None \<Rightarrow> CIMultiDict [] | Some h \<Rightarrow> CIMultiDict h),
      raw_status_code = status\<rparr>"

section \<open>StreamResponse\<close>

text \<open>
  What \<open>StreamResponse\<close> reads of a request: \<open>method\<close>, \<open>path\<close>, \<open>keep_alive\<close> and the
  \<open>send\<close> callable. Its \<open>_prepare_hook\<close> coroutine and the function \<open>headers_to_list\<close>
  of \<open>guillotina.asgi\<close> are defined outside this module, so both are parameters of the
  operations that call them: the hook may change the response it is given or raise.
\<close>

record request =
  req_method :: string
  req_path :: string
  req_keep_alive :: "bool option"
  req_send :: chan

text \<open>
  The attributes of a \<open>StreamResponse\<close>, without the leading underscore of the private
  ones. \<open>body_length\<close> does not exist before \<open>write_eof\<close> sets it. The scratch mapping
  \<open>_state\<close> plays no part in the lifecycle and is left out.
\<close>

record StreamResponse =
  s_content :: "content option"
  s_headers :: headers
  s_status_code :: "int option"
  content_type :: "string option"
  content_length :: "int option"
  payload_writer :: "ref option"
  eof_sent :: bool
  keep_alive :: "bool option"
  req :: "request option"
  body_length :: "nat option"

type_synonym prepare_hook = "request \<Rightarrow> StreamResponse \<Rightarrow> py_error + StreamResponse"
type_synonym headers_to_list = "headers \<Rightarrow> (bytes \<times> bytes) list"

definition StreamResponse_empty_body :: bool where
  "StreamResponse_empty_body = False"

definition StreamResponse_init ::
  "content option \<Rightarrow> (string \<times> string) list option \<Rightarrow> int option
    \<Rightarrow> py_error + StreamResponse" where
  "StreamResponse_init content_arg headers_arg status =
     (let content1 = (if StreamResponse_empty_body then None
                      else Some (content_or_default content_arg));
          headers1 = (case headers_arg of None \<Rightarrow> CIMultiDict [] | Some h \<Rightarrow> CIMultiDict h)
      in case status of
           None \<Rightarrow> Inl (ValueError ''Status is none'')
         | Some st \<Rightarrow>
             Inr \<lparr>s_content = (if st = 204 \<or> st = 205 then None else content1),
                  s_headers = headers1,
                  s_status_code = Some st,
                  content_type = None,
                  content_length = None,
                  payload_writer = None,
                  eof_sent = False,
                  keep_alive = Some True,
                  req = None,
                  body_length = None\<rparr>)"

definition prepared :: "StreamResponse \<Rightarrow> bool" where
  "prepared self = (payload_writer self \<noteq> None)"

text \<open>\<open>str\<close> of an integer, for the \<open>Content-Length\<close> header.\<close>

definition digit_char :: "nat \<Rightarrow> char" where
  "digit_char d = char_of (48 + d)"

function str_nat :: "nat \<Rightarrow> string" where
  "str_nat n = (if n < 10 then [digit_char n] else str_nat (n div 10) @ [digit_char (n mod 10)])"
  by pat_completeness auto
termination
  by (relation "measure id") auto

declare str_nat.simps [simp del]

definition str_int :: "int \<Rightarrow> string" where
  "str_int i = (if i < 0 then CHR ''-'' # str_nat (nat (- i)) else str_nat (nat i))"

definition StreamResponse_start ::
  "headers_to_list \<Rightarrow> request \<Rightarrow> StreamResponse \<times> world \<Rightarrow> ref \<times> StreamResponse \<times> world" where
  "StreamResponse_start to_list request sw =
     (let self = fst sw; w = snd sw;
          self1 = self\<lparr>req := Some request\<rparr>;
          ka = (case keep_alive self1 of None \<Rightarrow> req_keep_alive request | Some k \<Rightarrow> Some k);
          self2 = self1\<lparr>keep_alive := ka\<rparr>;
          nw = new_writer (req_send request) w;
          writer = fst nw; w1 = snd nw;
          self3 = self2\<lparr>payload_writer := Some writer\<rparr>;
          hs1 = (case content_type self3 of
                   None \<Rightarrow> md_setdefault (s_headers self3) ''Content-Type'' ''application/octet-stream''
                 | Some ct \<Rightarrow>
                     if ct \<noteq> [] then md_setdefault (s_headers self3) ''Content-Type'' ct
                     else md_setdefault (s_headers self3) ''Content-Type''
                            ''application/octet-stream'');
          hs2 = (case content_length self3 of
                   None \<Rightarrow> hs1
                 | Some cl \<Rightarrow>
                     if cl \<noteq> 0 then md_setdefault hs1 ''Content-Length'' (str_int cl) else hs1);
          self4 = self3\<lparr>s_headers := hs2\<rparr>;
          w2 = send_frame (req_send request)
                 (ResponseStart (to_list hs2) (s_status_code self4)) w1
      in (writer, self4, w2))"

definition StreamResponse_prepare ::
  "prepare_hook \<Rightarrow> headers_to_list \<Rightarrow> request \<Rightarrow> StreamResponse \<times> world
    \<Rightarrow> (py_error + ref option) \<times> StreamResponse \<times> world" where
  "StreamResponse_prepare hook to_list request sw =
     (let self = fst sw; w = snd sw
      in if eof_sent self then (Inr None, self, w)
         else case payload_writer self of
                Some writer \<Rightarrow> (Inr (Some writer), self, w)
              | None \<Rightarrow>
                  (let w1 = w\<lparr>hook_calls := Suc (hook_calls w)\<rparr>
                   in (case hook request self of
                         Inl e \<Rightarrow> (Inl e, self, w1)
                       | Inr self1 \<Rightarrow>
                           (let started = StreamResponse_start to_list request (self1, w1)
                            in (Inr (Some (fst started)), snd started)))))"

definition StreamResponse_write ::
  "bytes \<Rightarrow> StreamResponse \<times> world \<Rightarrow> (py_error + unit) \<times> StreamResponse \<times> world" where
  "StreamResponse_write data sw =
     (let self = fst sw; w = snd sw
      in if eof_sent self
         then (Inl (RuntimeError ''Cannot call write() after write_eof()''), self, w)
         else case payload_writer self of
                None \<Rightarrow> (Inl (RuntimeError ''Cannot call write() before prepare()''), self, w)
              | Some writer \<Rightarrow> (Inr (), self, AsgiStreamWriter_write writer data w))"

definition StreamResponse_drain ::
  "StreamResponse \<times> world \<Rightarrow> (py_error + unit) \<times> StreamResponse \<times> world" where
  "StreamResponse_drain sw =
     (let self = fst sw; w = snd sw
      in if eof_sent self
         then (Inl (AssertionError ''EOF has already been sent''), self, w)
         else case payload_writer self of
                None \<Rightarrow> (Inl (AssertionError ''Response has not been started''), self, w)
              | Some writer \<Rightarrow> (Inr (), self, AsgiStreamWriter_drain writer w))"

definition StreamResponse_write_eof ::
  "bytes \<Rightarrow> StreamResponse \<times> world \<Rightarrow> (py_error + unit) \<times> StreamResponse \<times> world" where
  "StreamResponse_write_eof data sw =
     (let self = fst sw; w = snd sw
      in if eof_sent self then (Inr (), self, w)
         else case payload_writer self of
                None \<Rightarrow> (Inl (AssertionError ''Response has not been started''), self, w)
              | Some writer \<Rightarrow>
                  let w1 = AsgiStreamWriter_write_eof writer data w
                  in (Inr (),
                      self\<lparr>eof_sent := True,
                           req := None,
                           body_length := Some output_size,
                           payload_writer := None\<rparr>,
                      w1))"

text \<open>The number of body bytes a channel has received.\<close>

fun frame_bytes :: "frame \<Rightarrow> nat" where
  "frame_bytes (ResponseBody body more_body) = length body"
| "frame_bytes (ResponseStart hs st) = 0"

definition body_bytes :: "frame list \<Rightarrow> nat" where
  "body_bytes fs = sum_list (map frame_bytes fs)"

text \<open>A request on channel \<open>0\<close>, a hook that changes nothing and a header encoding, for
  concrete runs.\<close>

definition request0 :: request where
  "request0 = \<lparr>req_method = ''GET'', req_path = ''/'', req_keep_alive = None, req_send = 0\<rparr>"

definition hook0 :: prepare_hook where
  "hook0 request self = Inr self"

definition to_list0 :: headers_to_list where
  "to_list0 hs = hs"

definition response0 :: StreamResponse where
  "response0 =
     \<lparr>s_content = Some [], s_headers = [], s_status_code = Some 200, content_type = None,
      content_length = None, payload_writer = None, eof_sent = False, keep_alive = Some True,
      req = None, body_length = None\<rparr>"

text \<open>\<open>prepare\<close>, \<open>write(b'abc')\<close> and \<open>write_eof(b'de')\<close> on a response constructed
  with status 200.\<close>

definition stream_run0 :: "(py_error + unit) \<times> StreamResponse \<times> world" where
  "stream_run0 =
     StreamResponse_write_eof ''de''
       (snd (StreamResponse_write ''abc''
          (snd (StreamResponse_prepare hook0 to_list0 request0 (response0, world0)))))"

section \<open>ApplicationRoot\<close>

text \<open>
  The database registry \<open>_dbs\<close> of \<open>ApplicationRoot\<close>, a dict from names to database
  objects. A coroutine that returns without a \<open>return\<close> value yields Python's \<open>None\<close>,
  here the \<open>None\<close> of the option type.
\<close>

record 'db ApplicationRoot =
  dbs :: "string \<rightharpoonup> 'db"
  config_file :: string

definition ApplicationRoot_init :: "string \<Rightarrow> 'db ApplicationRoot" where
  "ApplicationRoot_init cfg = \<lparr>dbs = Map.empty, config_file = cfg\<rparr>"

definition ApplicationRoot_contains :: "'db ApplicationRoot \<Rightarrow> string \<Rightarrow> bool" where
  "ApplicationRoot_contains self key = (if key \<in> dom (dbs self) then True else False)"

definition ApplicationRoot_setitem ::
  "'db ApplicationRoot \<Rightarrow> string \<Rightarrow> 'db \<Rightarrow> 'db ApplicationRoot" where
  "ApplicationRoot_setitem self key val = self\<lparr>dbs := (dbs self)(key \<mapsto> val)\<rparr>"

definition ApplicationRoot_getitem :: "'db ApplicationRoot \<Rightarrow> string \<Rightarrow> py_error + 'db" where
  "ApplicationRoot_getitem self key =
     (case dbs self key of None \<Rightarrow> Inl (KeyError key) | Some db \<Rightarrow> Inr db)"

definition ApplicationRoot_get ::
  "'db ApplicationRoot \<Rightarrow> string \<Rightarrow> py_error + 'db option" where
  "ApplicationRoot_get self key =
     (case ApplicationRoot_getitem self key of
        Inr db \<Rightarrow> Inr (Some db)
      | Inl (KeyError k) \<Rightarrow> Inr None
      | Inl e \<Rightarrow> Inl e)"

definition ApplicationRoot_asyncget ::
  "'db ApplicationRoot \<Rightarrow> string \<Rightarrow> py_error + 'db option" where
  "ApplicationRoot_asyncget self key =
     (case dbs self key of None \<Rightarrow> Inl (KeyError key) | Some db \<Rightarrow> Inr (Some db))"

section \<open>Properties of the writer\<close>

lemma drain_loop_eq:
  "drain_loop self w =
     w\<lparr>writers := (writers w)(self := (writers w self)\<lparr>buffer := []\<rparr>),
       transport := (transport w)(send (writers w self) :=
          transport w (send (writers w self)) @
          map (\<lambda>b. ResponseBody b True) (buffer (writers w self)))\<rparr>"
proof (induction self w rule: drain_loop.induct)
  case (1 self w)
  show ?case
  proof (cases "buffer (writers w self)")
    case Nil
    have "(writers w self)\<lparr>buffer := []\<rparr> = writers w self"
      using Nil by simp
    then have "(writers w)(self := (writers w self)\<lparr>buffer := []\<rparr>) = writers w"
      by (simp only: fun_upd_triv)
    moreover have "(transport w)(send (writers w self) :=
        transport w (send (writers w self)) @
        map (\<lambda>b. ResponseBody b True) (buffer (writers w self))) = transport w"
      using Nil by (simp only: list.map append_Nil2 fun_upd_triv)
    moreover have "drain_loop self w = w"
      using Nil by (subst drain_loop.simps) simp
    ultimately show ?thesis
      by (simp only: world.surjective [symmetric] world.update_convs) simp
  next
    case (Cons b bs)
    then have ne: "buffer (writers w self) \<noteq> []"
      by simp
    show ?thesis
      apply (subst drain_loop.simps)
      apply (simp only: ne if_False Let_def)
      apply (subst 1 [OF ne refl refl refl])
      apply (simp add: Cons send_frame_def)
      done
  qed
qed

lemma writers_drain:
  "writers (AsgiStreamWriter_drain self w) = (writers w)(self := (writers w self)\<lparr>buffer := []\<rparr>)"
  by (simp add: AsgiStreamWriter_drain_def drain_loop_eq send_frame_def Let_def)

lemma transport_drain:
  "transport (AsgiStreamWriter_drain self w) =
     (transport w)(send (writers w self) :=
        transport w (send (writers w self)) @
        map (\<lambda>b. ResponseBody b True) (buffer (writers w self)) @
        (if eof (writers w self) then [ResponseBody [] False] else []))"
  by (simp add: AsgiStreamWriter_drain_def drain_loop_eq send_frame_def Let_def)

lemma writers_write:
  "writers (AsgiStreamWriter_write self chunk w) =
     (writers w)(self := (writers w self)\<lparr>buffer := buffer (writers w self) @ [chunk]\<rparr>)"
  by (simp add: AsgiStreamWriter_write_def)

lemma transport_write: "transport (AsgiStreamWriter_write self chunk w) = transport w"
  by (simp add: AsgiStreamWriter_write_def)

lemma writers_write_eof:
  "writers (AsgiStreamWriter_write_eof self chunk w) =
     (writers w)(self := (writers w self)\<lparr>eof := True, buffer := []\<rparr>)"
  by (simp add: AsgiStreamWriter_write_eof_def Let_def writers_drain writers_write)

lemma transport_write_eof:
  "transport (AsgiStreamWriter_write_eof self chunk w) =
     (transport w)(send (writers w self) :=
        transport w (send (writers w self)) @
        map (\<lambda>b. ResponseBody b True) (buffer (writers w self)) @
        [ResponseBody chunk True, ResponseBody [] False])"
  by (simp add: AsgiStreamWriter_write_eof_def Let_def transport_drain writers_write transport_write)

lemma run_calls_writes:
  "run_calls self (map Write chunks) w =
     w\<lparr>writers := (writers w)(self :=
          (writers w self)\<lparr>buffer := buffer (writers w self) @ chunks\<rparr>)\<rparr>"
proof (induction chunks arbitrary: w)
  case Nil
  have "(writers w)(self := (writers w self)\<lparr>buffer := buffer (writers w self)\<rparr>) = writers w"
    by simp
  then show ?case
    by simp
next
  case (Cons chunk chunks)
  show ?case
    by (simp add: Cons AsgiStreamWriter_write_def cong: if_cong)
qed

lemma run_calls_append:
  "run_calls self (cs @ ds) w = run_calls self ds (run_calls self cs w)"
  by (induction cs arbitrary: w) simp_all

lemma send_run_call:
  "send (writers (run_call self c w) self) = send (writers w self)"
  by (cases c) (simp_all add: writers_write writers_write_eof writers_drain)

lemma eof_run_call:
  "\<not> is_write_eof c \<Longrightarrow> eof (writers (run_call self c w) self) = eof (writers w self)"
  by (cases c) (simp_all add: writers_write writers_drain)

lemma eof_frames_append: "eof_frames (fs @ gs) = eof_frames fs + eof_frames gs"
  by (simp add: eof_frames_def)

lemma eof_frames_more: "eof_frames (map (\<lambda>b. ResponseBody b True) bs) = 0"
  by (induction bs) (simp_all add: eof_frames_def)

lemma eof_frames_run_call:
  "\<not> is_write_eof c \<Longrightarrow>
   eof_frames (transport (run_call self c w) (send (writers w self))) =
     eof_frames (transport w (send (writers w self))) +
     (if is_drain c \<and> eof (writers w self) then 1 else 0)"
  by (cases c)
     (simp_all add: transport_write transport_drain eof_frames_append eof_frames_more,
      simp add: eof_frames_def)

lemma eof_frames_write_eof:
  "eof_frames (transport (AsgiStreamWriter_write_eof self chunk w) (send (writers w self))) =
     eof_frames (transport w (send (writers w self))) + 1"
  by (simp add: transport_write_eof eof_frames_append eof_frames_more)
     (simp add: eof_frames_def)

lemma eof_frames_before_eof:
  "\<not> eof (writers w self) \<Longrightarrow> \<not> list_ex is_write_eof cs \<Longrightarrow>
   \<not> eof (writers (run_calls self cs w) self) \<and>
   send (writers (run_calls self cs w) self) = send (writers w self) \<and>
   eof_frames (transport (run_calls self cs w) (send (writers w self))) =
     eof_frames (transport w (send (writers w self)))"
proof (induction cs arbitrary: w)
  case Nil
  then show ?case by simp
next
  case (Cons c cs)
  let ?w = "run_call self c w"
  from Cons.prems have c: "\<not> is_write_eof c" and cs: "\<not> list_ex is_write_eof cs"
    by simp_all
  have e: "\<not> eof (writers ?w self)"
    using Cons.prems(1) c by (simp add: eof_run_call)
  have s: "send (writers ?w self) = send (writers w self)"
    by (rule send_run_call)
  have f: "eof_frames (transport ?w (send (writers w self))) =
      eof_frames (transport w (send (writers w self)))"
    using eof_frames_run_call [OF c, of self w] Cons.prems(1) by simp
  from Cons.IH [OF e cs] s f show ?case
    by simp
qed

lemma eof_frames_after_eof:
  "eof (writers w self) \<Longrightarrow> \<not> list_ex is_write_eof cs \<Longrightarrow>
   eof_frames (transport (run_calls self cs w) (send (writers w self))) =
     eof_frames (transport w (send (writers w self))) + length (filter is_drain cs)"
proof (induction cs arbitrary: w)
  case Nil
  show ?case by simp
next
  case (Cons c cs)
  let ?w = "run_call self c w"
  from Cons.prems have c: "\<not> is_write_eof c" and cs: "\<not> list_ex is_write_eof cs"
    by simp_all
  have e: "eof (writers ?w self)"
    using Cons.prems(1) c by (simp add: eof_run_call)
  have s: "send (writers ?w self) = send (writers w self)"
    by (rule send_run_call)
  have f: "eof_frames (transport ?w (send (writers w self))) =
      eof_frames (transport w (send (writers w self))) + (if is_drain c then 1 else 0)"
    using eof_frames_run_call [OF c, of self w] Cons.prems(1) by simp
  from Cons.IH [OF e cs] s f show ?case
    by simp
qed

lemma new_writer_simps:
  "writers (snd (new_writer c w)) (fst (new_writer c w)) = AsgiStreamWriter_init c"
  "transport (snd (new_writer c w)) = transport w"
  by (simp_all add: new_writer_def)

text \<open>
  Claim C1, as the code has it: a writer is constructed on a channel, \<open>write\<close> is called
  once per chunk and then \<open>write_eof final\<close>. The channel receives one frame with
  \<open>more_body = True\<close> per chunk in the order of the calls, then \<open>final\<close> itself in a frame
  with \<open>more_body = True\<close>, then exactly one frame with an empty body and
  \<open>more_body = False\<close>; no other channel receives anything.
\<close>

theorem write_eof_frames:
  "transport (AsgiStreamWriter_write_eof (fst (new_writer c w)) final
      (run_calls (fst (new_writer c w)) (map Write chunks) (snd (new_writer c w)))) =
   (transport w)(c := transport w c @ map (\<lambda>chunk. ResponseBody chunk True) chunks @
      [ResponseBody final True, ResponseBody [] False])"
  by (simp add: transport_write_eof run_calls_writes new_writer_simps AsgiStreamWriter_init_def)

text \<open>
  The claim as stated puts \<open>final\<close> into the frame with \<open>more_body = False\<close>. After
  \<open>write ''a''\<close> and \<open>write_eof ''b''\<close> the channel holds three frames, not two.
\<close>

theorem write_eof_final_frame_counterexample:
  "transport (AsgiStreamWriter_write_eof (fst (new_writer 0 world0)) ''b''
      (AsgiStreamWriter_write (fst (new_writer 0 world0)) ''a'' (snd (new_writer 0 world0)))) 0 =
     [ResponseBody ''a'' True, ResponseBody ''b'' True, ResponseBody [] False] \<and>
   transport (AsgiStreamWriter_write_eof (fst (new_writer 0 world0)) ''b''
      (AsgiStreamWriter_write (fst (new_writer 0 world0)) ''a'' (snd (new_writer 0 world0)))) 0 \<noteq>
     [ResponseBody ''a'' True, ResponseBody ''b'' False]"
  by (simp add: transport_write_eof writers_write transport_write new_writer_simps
      AsgiStreamWriter_init_def world0_def no_frames_def)

text \<open>
  Claim C2, as the code has it: in a sequence of \<open>write\<close>, \<open>drain\<close> and \<open>write_eof\<close>
  calls on one writer with exactly one \<open>write_eof\<close>, the number of frames with
  \<open>more_body = False\<close> the channel receives is one for the \<open>write_eof\<close> plus one for
  every \<open>drain\<close> called after it. So there is exactly one such frame when no \<open>drain\<close>
  follows \<open>write_eof\<close>, and every later \<open>drain\<close> sends one more.
\<close>

theorem eof_frames_one_plus_drains:
  assumes "\<not> list_ex is_write_eof pre" and "\<not> list_ex is_write_eof post"
  shows "eof_frames (transport
      (run_calls (fst (new_writer c w)) (pre @ WriteEof final # post) (snd (new_writer c w))) c) =
    eof_frames (transport w c) + 1 + length (filter is_drain post)"
proof -
  let ?self = "fst (new_writer c w)"
  let ?w0 = "snd (new_writer c w)"
  let ?w1 = "run_calls ?self pre ?w0"
  let ?w2 = "AsgiStreamWriter_write_eof ?self final ?w1"
  have s0: "send (writers ?w0 ?self) = c" and e0: "\<not> eof (writers ?w0 ?self)"
    by (simp_all add: new_writer_simps AsgiStreamWriter_init_def)
  from eof_frames_before_eof [OF e0 assms(1)] s0
  have s1: "send (writers ?w1 ?self) = c"
    and f1: "eof_frames (transport ?w1 c) = eof_frames (transport w c)"
    by (simp_all add: new_writer_simps)
  have s2: "send (writers ?w2 ?self) = c" and e2: "eof (writers ?w2 ?self)"
    using s1 by (simp_all add: writers_write_eof)
  have f2: "eof_frames (transport ?w2 c) = eof_frames (transport w c) + 1"
    using eof_frames_write_eof [of ?self final ?w1] s1 f1 by simp
  have "eof_frames (transport (run_calls ?self post ?w2) c) =
      eof_frames (transport ?w2 c) + length (filter is_drain post)"
    using eof_frames_after_eof [OF e2 assms(2)] s2 by simp
  with f2 show ?thesis
    by (simp add: run_calls_append)
qed

theorem eof_frames_one_plus_drains_witness:
  "\<not> list_ex is_write_eof [Write ''a'', Drain] \<and>
   \<not> list_ex is_write_eof [Drain, Write ''b'', Drain] \<and>
   eof_frames (transport
      (run_calls (fst (new_writer 0 world0))
         ([Write ''a'', Drain] @ WriteEof ''c'' # [Drain, Write ''b'', Drain])
         (snd (new_writer 0 world0))) 0) = 3"
  using eof_frames_one_plus_drains [of "[Write ''a'', Drain]" "[Drain, Write ''b'', Drain]"
      0 world0 "''c''"]
  by (simp add: world0_def no_frames_def eof_frames_def)

text \<open>
  The claim as stated says that a \<open>drain\<close> after \<open>write_eof\<close> sends nothing. Here
  \<open>write_eof\<close> with the default empty chunk is followed by one \<open>drain\<close>: the channel
  holds two frames with \<open>more_body = False\<close>, and the \<open>drain\<close> has added a frame.
\<close>

theorem drain_after_eof_counterexample:
  "eof_frames (transport
      (run_calls (fst (new_writer 0 world0)) [WriteEof [], Drain] (snd (new_writer 0 world0))) 0)
     = 2 \<and>
   transport
      (run_calls (fst (new_writer 0 world0)) [WriteEof [], Drain] (snd (new_writer 0 world0))) 0
     \<noteq>
   transport
      (run_calls (fst (new_writer 0 world0)) [WriteEof []] (snd (new_writer 0 world0))) 0"
  by (simp add: transport_write_eof transport_drain writers_write_eof new_writer_simps
      AsgiStreamWriter_init_def world0_def no_frames_def eof_frames_def)

section \<open>Properties of StreamResponse\<close>

lemma prepare_when_prepared:
  "\<not> eof_sent (fst sw) \<Longrightarrow> payload_writer (fst sw) = Some writer \<Longrightarrow>
   StreamResponse_prepare hook to_list request sw = (Inr (Some writer), sw)"
  by (simp add: StreamResponse_prepare_def)

lemma prepare_when_closed:
  "eof_sent (fst sw) \<Longrightarrow> StreamResponse_prepare hook to_list request sw = (Inr None, sw)"
  by (simp add: StreamResponse_prepare_def)

lemma prepare_returns_writer:
  "fst (StreamResponse_prepare hook to_list request (self, w)) = Inr (Some writer) \<Longrightarrow>
   payload_writer (fst (snd (StreamResponse_prepare hook to_list request (self, w)))) = Some writer"
  by (auto simp: StreamResponse_prepare_def StreamResponse_start_def Let_def
      split: if_splits option.splits sum.splits)

lemma write_eof_closes:
  "fst (StreamResponse_write_eof data (self, w)) = Inr () \<Longrightarrow>
   eof_sent (fst (snd (StreamResponse_write_eof data (self, w))))"
  by (auto simp: StreamResponse_write_eof_def Let_def split: if_splits option.splits)

lemma write_when_closed:
  "eof_sent (fst sw) \<Longrightarrow>
   StreamResponse_write data sw =
     (Inl (RuntimeError ''Cannot call write() after write_eof()''), sw)"
  by (simp add: StreamResponse_write_def)

lemma write_eof_when_closed:
  "eof_sent (fst sw) \<Longrightarrow> StreamResponse_write_eof data sw = (Inr (), sw)"
  by (simp add: StreamResponse_write_eof_def)

lemma init_not_prepared:
  "StreamResponse_init content_arg headers_arg status = Inr self \<Longrightarrow>
   payload_writer self = None \<and> \<not> eof_sent self \<and> s_status_code self = status \<and>
   status \<noteq> None"
  by (auto simp: StreamResponse_init_def Let_def split: option.splits)

lemma init_response0: "StreamResponse_init None None (Some 200) = Inr response0"
  by (simp add: StreamResponse_init_def response0_def StreamResponse_empty_body_def
      content_or_default_def default_content_def CIMultiDict_def)

lemma prepare_response0:
  "StreamResponse_prepare hook0 to_list0 request0 (response0, world0) =
     (Inr (Some 0),
      response0\<lparr>req := Some request0, payload_writer := Some 0,
        s_headers := [(''Content-Type'', ''application/octet-stream'')]\<rparr>,
      world0\<lparr>hook_calls := 1,
        writers := fresh_writers(0 := AsgiStreamWriter_init 0),
        next_writer := 1,
        transport := no_frames(0 :=
          [ResponseStart [(''Content-Type'', ''application/octet-stream'')] (Some 200)])\<rparr>)"
  by (simp add: StreamResponse_prepare_def StreamResponse_start_def Let_def hook0_def
      to_list0_def request0_def response0_def world0_def new_writer_def send_frame_def
      no_frames_def)

text \<open>
  Claim C3: when \<open>prepare\<close> has returned a writer and the response is not closed, a further
  \<open>prepare\<close> (with any hook, encoder and request) returns the same writer reference and
  leaves the response, the transport and the hook counter as they were, so no second
  start frame is sent. When \<open>write_eof\<close> has succeeded, \<open>prepare\<close> returns \<open>None\<close>, again
  with nothing changed: the hook is not invoked and no frame is sent.
\<close>

theorem prepare_idempotent:
  "(fst (StreamResponse_prepare hook to_list request (self, w)) = Inr (Some writer) \<and>
    \<not> eof_sent (fst (snd (StreamResponse_prepare hook to_list request (self, w)))) \<longrightarrow>
      StreamResponse_prepare hook' to_list' request'
        (snd (StreamResponse_prepare hook to_list request (self, w))) =
      (Inr (Some writer), snd (StreamResponse_prepare hook to_list request (self, w)))) \<and>
   (fst (StreamResponse_write_eof data (self, w)) = Inr () \<longrightarrow>
      StreamResponse_prepare hook' to_list' request'
        (snd (StreamResponse_write_eof data (self, w))) =
      (Inr None, snd (StreamResponse_write_eof data (self, w))))"
proof (intro conjI impI)
  let ?p = "StreamResponse_prepare hook to_list request (self, w)"
  assume a: "fst ?p = Inr (Some writer) \<and> \<not> eof_sent (fst (snd ?p))"
  then have "payload_writer (fst (snd ?p)) = Some writer"
    by (simp add: prepare_returns_writer)
  with a show "StreamResponse_prepare hook' to_list' request' (snd ?p) =
      (Inr (Some writer), snd ?p)"
    by (simp add: prepare_when_prepared)
next
  let ?e = "StreamResponse_write_eof data (self, w)"
  assume "fst ?e = Inr ()"
  then have "eof_sent (fst (snd ?e))"
    by (rule write_eof_closes)
  then show "StreamResponse_prepare hook' to_list' request' (snd ?e) = (Inr None, snd ?e)"
    by (rule prepare_when_closed)
qed

theorem prepare_idempotent_witness:
  "fst (StreamResponse_prepare hook0 to_list0 request0 (response0, world0)) = Inr (Some 0) \<and>
   \<not> eof_sent (fst (snd (StreamResponse_prepare hook0 to_list0 request0 (response0, world0)))) \<and>
   StreamResponse_prepare hook0 to_list0 request0
     (snd (StreamResponse_prepare hook0 to_list0 request0 (response0, world0))) =
   (Inr (Some 0), snd (StreamResponse_prepare hook0 to_list0 request0 (response0, world0))) \<and>
   fst (StreamResponse_write_eof ''x''
     (snd (StreamResponse_prepare hook0 to_list0 request0 (response0, world0)))) = Inr () \<and>
   StreamResponse_prepare hook0 to_list0 request0
     (snd (StreamResponse_write_eof ''x''
        (snd (StreamResponse_prepare hook0 to_list0 request0 (response0, world0))))) =
   (Inr None,
    snd (StreamResponse_write_eof ''x''
        (snd (StreamResponse_prepare hook0 to_list0 request0 (response0, world0)))))"
proof -
  let ?p = "StreamResponse_prepare hook0 to_list0 request0 (response0, world0)"
  have p: "fst ?p = Inr (Some 0)" "\<not> eof_sent (fst (snd ?p))"
    "payload_writer (fst (snd ?p)) = Some 0"
    by (simp_all add: prepare_response0) (simp_all add: response0_def)
  have e: "fst (StreamResponse_write_eof ''x'' (fst (snd ?p), snd (snd ?p))) = Inr ()"
    using p by (simp add: StreamResponse_write_eof_def Let_def)
  from p(1,2) prepare_idempotent [of hook0 to_list0 request0 response0 world0 0
      hook0 to_list0 request0]
  have "StreamResponse_prepare hook0 to_list0 request0 (snd ?p) = (Inr (Some 0), snd ?p)"
    by blast
  moreover from e prepare_idempotent [of hook0 to_list0 request0 "fst (snd ?p)" "snd (snd ?p)"
      0 hook0 to_list0 request0 "''x''"]
  have "StreamResponse_prepare hook0 to_list0 request0
      (snd (StreamResponse_write_eof ''x'' (snd ?p))) =
    (Inr None, snd (StreamResponse_write_eof ''x'' (snd ?p)))"
    by simp
  ultimately show ?thesis
    using p(1,2) e by simp
qed

text \<open>
  Claim C4: \<open>write\<close> on a response that was constructed and never prepared raises
  \<open>RuntimeError\<close>, and so does \<open>write\<close> after a successful \<open>write_eof\<close>; in both cases the
  response and the world, with its transport, are unchanged. \<open>write_eof\<close> after a
  successful \<open>write_eof\<close> returns normally and changes nothing.
\<close>

theorem write_state_errors:
  "(StreamResponse_init content_arg headers_arg status = Inr self0 \<longrightarrow>
      StreamResponse_write data (self0, w0) =
        (Inl (RuntimeError ''Cannot call write() before prepare()''), self0, w0)) \<and>
   (fst (StreamResponse_write_eof final (self, w)) = Inr () \<longrightarrow>
      StreamResponse_write data (snd (StreamResponse_write_eof final (self, w))) =
        (Inl (RuntimeError ''Cannot call write() after write_eof()''),
         snd (StreamResponse_write_eof final (self, w))) \<and>
      StreamResponse_write_eof data (snd (StreamResponse_write_eof final (self, w))) =
        (Inr (), snd (StreamResponse_write_eof final (self, w))))"
proof (intro conjI impI)
  assume "StreamResponse_init content_arg headers_arg status = Inr self0"
  then have "payload_writer self0 = None" "\<not> eof_sent self0"
    by (simp_all add: init_not_prepared)
  then show "StreamResponse_write data (self0, w0) =
      (Inl (RuntimeError ''Cannot call write() before prepare()''), self0, w0)"
    by (simp add: StreamResponse_write_def)
next
  let ?e = "StreamResponse_write_eof final (self, w)"
  assume "fst ?e = Inr ()"
  then have "eof_sent (fst (snd ?e))"
    by (rule write_eof_closes)
  then show "StreamResponse_write data (snd ?e) =
      (Inl (RuntimeError ''Cannot call write() after write_eof()''), snd ?e)"
    by (rule write_when_closed)
next
  let ?e = "StreamResponse_write_eof final (self, w)"
  assume "fst ?e = Inr ()"
  then have "eof_sent (fst (snd ?e))"
    by (rule write_eof_closes)
  then show "StreamResponse_write_eof data (snd ?e) = (Inr (), snd ?e)"
    by (rule write_eof_when_closed)
qed

theorem write_state_errors_witness:
  "StreamResponse_init None None (Some 200) = Inr response0 \<and>
   StreamResponse_write ''x'' (response0, world0) =
     (Inl (RuntimeError ''Cannot call write() before prepare()''), response0, world0) \<and>
   fst (StreamResponse_write_eof ''y''
     (snd (StreamResponse_prepare hook0 to_list0 request0 (response0, world0)))) = Inr () \<and>
   StreamResponse_write ''x''
     (snd (StreamResponse_write_eof ''y''
        (snd (StreamResponse_prepare hook0 to_list0 request0 (response0, world0))))) =
     (Inl (RuntimeError ''Cannot call write() after write_eof()''),
      snd (StreamResponse_write_eof ''y''
        (snd (StreamResponse_prepare hook0 to_list0 request0 (response0, world0))))) \<and>
   StreamResponse_write_eof ''x''
     (snd (StreamResponse_write_eof ''y''
        (snd (StreamResponse_prepare hook0 to_list0 request0 (response0, world0))))) =
     (Inr (),
      snd (StreamResponse_write_eof ''y''
        (snd (StreamResponse_prepare hook0 to_list0 request0 (response0, world0)))))"
proof -
  let ?p = "StreamResponse_prepare hook0 to_list0 request0 (response0, world0)"
  have p: "\<not> eof_sent (fst (snd ?p))" "payload_writer (fst (snd ?p)) = Some 0"
    by (simp_all add: prepare_response0) (simp_all add: response0_def)
  have e: "fst (StreamResponse_write_eof ''y'' (fst (snd ?p), snd (snd ?p))) = Inr ()"
    using p by (simp add: StreamResponse_write_eof_def Let_def)
  from init_response0
    write_state_errors [of None None "Some 200" response0 "''x''" world0 "''y''"
      "fst (snd ?p)" "snd (snd ?p)"] e
  show ?thesis
    by simp
qed

text \<open>
  Claim C6, as the code has it: a \<open>write_eof\<close> on a prepared, open response succeeds,
  hands the final chunk to the writer, and leaves the response closed with the request
  reference and the writer released, so that a further \<open>write\<close> raises. The body length
  it records is the writer's \<open>output_size\<close>, which no writer method updates: it is \<open>0\<close>
  whatever was written.
\<close>

theorem write_eof_releases:
  assumes "\<not> eof_sent (fst sw)" and "payload_writer (fst sw) = Some writer"
  shows "fst (StreamResponse_write_eof data sw) = Inr () \<and>
    snd (snd (StreamResponse_write_eof data sw)) =
      AsgiStreamWriter_write_eof writer data (snd sw) \<and>
    body_length (fst (snd (StreamResponse_write_eof data sw))) = Some 0 \<and>
    req (fst (snd (StreamResponse_write_eof data sw))) = None \<and>
    payload_writer (fst (snd (StreamResponse_write_eof data sw))) = None \<and>
    eof_sent (fst (snd (StreamResponse_write_eof data sw))) \<and>
    StreamResponse_write more_data (snd (StreamResponse_write_eof data sw)) =
      (Inl (RuntimeError ''Cannot call write() after write_eof()''),
       snd (StreamResponse_write_eof data sw))"
proof -
  have "StreamResponse_write_eof data sw =
      (Inr (),
       (fst sw)\<lparr>eof_sent := True, req := None, body_length := Some 0, payload_writer := None\<rparr>,
       AsgiStreamWriter_write_eof writer data (snd sw))"
    using assms by (simp add: StreamResponse_write_eof_def Let_def output_size_def)
  then show ?thesis
    by (simp add: StreamResponse_write_def)
qed

theorem write_eof_releases_witness:
  "\<not> eof_sent (fst (snd (StreamResponse_prepare hook0 to_list0 request0 (response0, world0)))) \<and>
   payload_writer (fst (snd (StreamResponse_prepare hook0 to_list0 request0 (response0, world0))))
     = Some 0 \<and>
   fst (StreamResponse_write_eof ''de''
     (snd (StreamResponse_prepare hook0 to_list0 request0 (response0, world0)))) = Inr () \<and>
   body_length (fst (snd (StreamResponse_write_eof ''de''
     (snd (StreamResponse_prepare hook0 to_list0 request0 (response0, world0)))))) = Some 0 \<and>
   req (fst (snd (StreamResponse_write_eof ''de''
     (snd (StreamResponse_prepare hook0 to_list0 request0 (response0, world0)))))) = None \<and>
   payload_writer (fst (snd (StreamResponse_write_eof ''de''
     (snd (StreamResponse_prepare hook0 to_list0 request0 (response0, world0)))))) = None"
proof -
  let ?p = "StreamResponse_prepare hook0 to_list0 request0 (response0, world0)"
  have p: "\<not> eof_sent (fst (snd ?p))" "payload_writer (fst (snd ?p)) = Some 0"
    by (simp_all add: prepare_response0) (simp_all add: response0_def)
  from p write_eof_releases [OF p, of "''de''"] show ?thesis
    by simp
qed

text \<open>
  The claim as stated makes the recorded length the number of body bytes transmitted.
  After \<open>prepare\<close>, \<open>write(b'abc')\<close> and \<open>write_eof(b'de')\<close> the channel has received five
  body bytes and the recorded length is \<open>0\<close>.
\<close>

theorem body_length_counterexample:
  "fst stream_run0 = Inr () \<and>
   body_bytes (transport (snd (snd stream_run0)) 0) = 5 \<and>
   body_length (fst (snd stream_run0)) = Some 0 \<and>
   body_length (fst (snd stream_run0)) \<noteq> Some (body_bytes (transport (snd (snd stream_run0)) 0))"
proof -
  have "StreamResponse_write ''abc''
      (snd (StreamResponse_prepare hook0 to_list0 request0 (response0, world0))) =
    (Inr (), fst (snd (StreamResponse_prepare hook0 to_list0 request0 (response0, world0))),
     AsgiStreamWriter_write 0 ''abc''
       (snd (snd (StreamResponse_prepare hook0 to_list0 request0 (response0, world0)))))"
    by (simp add: prepare_response0 StreamResponse_write_def Let_def) (simp add: response0_def)
  then have r: "stream_run0 =
    (Inr (),
     (fst (snd (StreamResponse_prepare hook0 to_list0 request0 (response0, world0))))
       \<lparr>eof_sent := True, req := None, body_length := Some 0, payload_writer := None\<rparr>,
     AsgiStreamWriter_write_eof 0 ''de'' (AsgiStreamWriter_write 0 ''abc''
       (snd (snd (StreamResponse_prepare hook0 to_list0 request0 (response0, world0))))))"
    by (simp add: stream_run0_def StreamResponse_write_eof_def Let_def output_size_def
        prepare_response0)
       (simp add: response0_def)
  show ?thesis
    by (simp only: r)
       (simp add: prepare_response0 transport_write_eof writers_write transport_write
        AsgiStreamWriter_init_def body_bytes_def no_frames_def)
qed

text \<open>
  Claim C10: the constructor of \<open>StreamResponse\<close> called with \<open>status = None\<close> raises
  \<open>ValueError\<close>; whenever it returns an instance, the status passed was not \<open>None\<close>, the
  instance carries it, and the instance is not yet prepared.
\<close>

theorem stream_response_requires_status:
  "StreamResponse_init content_arg headers_arg None = Inl (ValueError ''Status is none'') \<and>
   (StreamResponse_init content_arg headers_arg status = Inr self \<longrightarrow>
      status \<noteq> None \<and> s_status_code self = status \<and> s_status_code self \<noteq> None \<and>
      \<not> prepared self)"
proof (intro conjI impI)
  show "StreamResponse_init content_arg headers_arg None = Inl (ValueError ''Status is none'')"
    by (simp add: StreamResponse_init_def Let_def)
next
  assume a: "StreamResponse_init content_arg headers_arg status = Inr self"
  from init_not_prepared [OF a] show "status \<noteq> None" "s_status_code self = status"
    "s_status_code self \<noteq> None" "\<not> prepared self"
    by (simp_all add: prepared_def)
qed

theorem stream_response_requires_status_witness:
  "StreamResponse_init None None (Some 200) = Inr response0 \<and>
   Some (200 :: int) \<noteq> None \<and> s_status_code response0 = Some 200 \<and> \<not> prepared response0"
  using stream_response_requires_status [of None None "Some 200" response0] init_response0
  by simp

section \<open>Properties of Response and its subclasses\<close>

lemma ci_eq_refl: "ci_eq k k"
  by (simp add: ci_eq_def)

lemma md_getitem_setitem: "md_getitem (md_setitem hs key val) key = Inr val"
  by (induction hs key val rule: md_setitem.induct) (simp_all add: ci_eq_refl)


lemma no_content_status_empty_body:
  "status_code_of cls = Some 204 \<or> status_code_of cls = Some 205 \<Longrightarrow> empty_body_of cls"
  by (cases cls) auto

text \<open>
  Claim C5, as the code has it: the \<open>Allow\<close> header of \<open>HTTPMethodNotAllowed\<close> is the
  allowed methods sorted in code point order and joined with commas, each method spelled
  as it was passed; the constructor changes the case of no allowed method.
\<close>

theorem allow_header_sorted_join:
  "\<exists>r. HTTPMethodNotAllowed_init str_upper meth allowed content_arg headers_arg = Inr r \<and>
     md_getitem (headers r) ''Allow'' = Inr (join '','' (sort allowed)) \<and>
     status_code r = Some 405 \<and> allowed_methods r = allowed"
  by (simp add: HTTPMethodNotAllowed_init_def Response_init_def Let_def md_getitem_setitem)

text \<open>
  The claim as stated gives \<open>GET,POST,PUT\<close> for the methods \<open>get\<close>, \<open>post\<close>, \<open>PUT\<close>. The
  header is \<open>PUT,get,post\<close>: upper case letters sort before lower case ones and nothing
  is converted.
\<close>

theorem allow_header_uppercase_counterexample:
  "map_sum id headers
     (HTTPMethodNotAllowed_init upper_ascii ''get'' [''get'', ''post'', ''PUT''] None None) =
     Inr [(''Allow'', ''PUT,get,post'')] \<and>
   map_sum id headers
     (HTTPMethodNotAllowed_init upper_ascii ''get'' [''get'', ''post'', ''PUT''] None None) \<noteq>
     Inr [(''Allow'', ''GET,POST,PUT'')]"
  by (simp add: HTTPMethodNotAllowed_init_def Response_init_def Let_def CIMultiDict_def)


text \<open>
  The redirect classes reach \<open>Response.__init__\<close> only with a non-empty location and
  never with a status, so their instances carry the status of the class as well.
\<close>

lemma redirect_needs_location:
  "HTTPMove_init cls [] content_arg headers_arg =
     Inl (ValueError ''HTTP redirects need a location to redirect to.'')"
  by (simp add: HTTPMove_init_def)

lemma redirect_carries_class_status:
  "loc \<noteq> [] \<Longrightarrow>
   \<exists>r. HTTPMove_init cls loc content_arg headers_arg = Inr r \<and>
     status_code r = status_code_of cls \<and> location r = loc \<and>
     md_getitem (headers r) ''Location'' = Inr loc"
  by (simp add: HTTPMove_init_def Response_init_def Let_def md_getitem_setitem)






text \<open>
  \<open>HTTPNoContent\<close> and \<open>HTTPResetContent\<close> construct instances with status 204 and 205
  and no content, and so does the base \<open>Response\<close> given the status 204 or 205, whatever
  content is passed. More generally, no instance that \<open>Response.__init__\<close> returns for any
  class with status 204 or 205 has content.
\<close>

lemma response_init_no_content:
  "(\<exists>r. Response_init HTTPNoContent content_arg headers_arg None = Inr r \<and>
      status_code r = Some 204 \<and> content r = None) \<and>
   (\<exists>r. Response_init HTTPResetContent content_arg headers_arg None = Inr r \<and>
      status_code r = Some 205 \<and> content r = None) \<and>
   (st = 204 \<or> st = 205 \<longrightarrow>
      (\<exists>r. Response_init Response content_arg headers_arg (Some st) = Inr r \<and>
         status_code r = Some st \<and> content r = None)) \<and>
   (Response_init cls content_arg headers_arg status = Inr r' \<and>
      (status_code r' = Some 204 \<or> status_code r' = Some 205) \<longrightarrow> content r' = None)"
proof (intro conjI impI)
  show "\<exists>r. Response_init HTTPNoContent content_arg headers_arg None = Inr r \<and>
      status_code r = Some 204 \<and> content r = None"
    by (simp add: Response_init_def Let_def)
  show "\<exists>r. Response_init HTTPResetContent content_arg headers_arg None = Inr r \<and>
      status_code r = Some 205 \<and> content r = None"
    by (simp add: Response_init_def Let_def)
next
  assume "st = 204 \<or> st = 205"
  then show "\<exists>r. Response_init Response content_arg headers_arg (Some st) = Inr r \<and>
      status_code r = Some st \<and> content r = None"
    by (auto simp: Response_init_def Let_def status_truthy_def)
next
  assume a: "Response_init cls content_arg headers_arg status = Inr r' \<and>
      (status_code r' = Some 204 \<or> status_code r' = Some 205)"
  show "content r' = None"
  proof (cases status)
    case None
    with a have "status_code_of cls = Some 204 \<or> status_code_of cls = Some 205"
      by (auto simp: Response_init_def Let_def)
    then have "empty_body_of cls"
      by (rule no_content_status_empty_body)
    with a None show ?thesis
      by (auto simp: Response_init_def Let_def)
  next
    case (Some s)
    with a show ?thesis
      by (auto simp: Response_init_def Let_def split: if_splits)
  qed
qed

lemma response_init_no_content_example:
  "Response_init Response (Some [(''a'', JInt 1)]) None (Some 204) =
     Inr \<lparr>content = None, headers = [], status_code = Some 204\<rparr> \<and>
   Response_init HTTPResetContent (Some [(''a'', JInt 1)]) None None =
     Inr \<lparr>content = None, headers = [], status_code = Some 205\<rparr> \<and>
   content \<lparr>content = None, headers = [], status_code = Some (205 :: int)\<rparr> = None"
proof -
  have 1: "Response_init Response (Some [(''a'', JInt 1)]) None (Some 204) =
      Inr \<lparr>content = None, headers = [], status_code = Some 204\<rparr>"
    by (simp add: Response_init_def Let_def status_truthy_def CIMultiDict_def)
  have 2: "Response_init HTTPResetContent (Some [(''a'', JInt 1)]) None None =
      Inr \<lparr>content = None, headers = [], status_code = Some 205\<rparr>"
    by (simp add: Response_init_def Let_def CIMultiDict_def)
  from 1 2 response_init_no_content [of "Some [(''a'', JInt 1)]" None 204 HTTPResetContent None
      "\<lparr>content = None, headers = [], status_code = Some 205\<rparr>"]
  show ?thesis
    by simp
qed

text \<open>
  Claim C9: a materialized response with status 204 or 205 has no content, whatever
  content its constructor is given. \<open>RawResponse\<close> does not keep to it:
  \<open>RawResponse(content=b'x', status=204)\<close> is an instance with status 204 whose content is
  \<open>b'x'\<close>, while \<open>Response\<close> and \<open>StreamResponse\<close> given the status 204 drop the content
  they are passed.
\<close>

theorem raw_response_204_keeps_content:
  "RawResponse_init (Some ''x'') None (Some 204) =
     \<lparr>raw_content = ''x'', raw_headers = [], raw_status_code = Some 204\<rparr> \<and>
   map_sum id content (Response_init Response (Some [(''a'', JInt 1)]) None (Some 204)) =
     Inr None \<and>
   map_sum id s_content (StreamResponse_init (Some [(''a'', JInt 1)]) None (Some 204)) =
     Inr None"
  by (simp add: RawResponse_init_def RawResponse_empty_body_def CIMultiDict_def
      Response_init_def StreamResponse_init_def Let_def status_truthy_def)

section \<open>Properties of ApplicationRoot\<close>

text \<open>
  Claim C7, as the code has it: for a key that is not in the registry, \<open>get\<close> returns
  \<open>None\<close>, while \<open>asyncget\<close> raises \<open>KeyError\<close>, as the subscript \<open>self._dbs[key]\<close> does.
\<close>

theorem absent_key_get_asyncget:
  assumes "\<not> ApplicationRoot_contains self key"
  shows "ApplicationRoot_get self key = Inr None \<and>
    ApplicationRoot_asyncget self key = Inl (KeyError key)"
proof -
  from assms have "dbs self key = None"
    by (auto simp: ApplicationRoot_contains_def split: if_splits)
  then show ?thesis
    by (simp add: ApplicationRoot_get_def ApplicationRoot_getitem_def
        ApplicationRoot_asyncget_def)
qed

theorem absent_key_get_asyncget_witness:
  "\<not> ApplicationRoot_contains
       (ApplicationRoot_setitem (ApplicationRoot_init ''config.json'') ''db'' (1 :: nat))
       ''other'' \<and>
   ApplicationRoot_get
       (ApplicationRoot_setitem (ApplicationRoot_init ''config.json'') ''db'' (1 :: nat))
       ''other'' = Inr None \<and>
   ApplicationRoot_asyncget
       (ApplicationRoot_setitem (ApplicationRoot_init ''config.json'') ''db'' (1 :: nat))
       ''other'' = Inl (KeyError ''other'')"
proof -
  have h: "\<not> ApplicationRoot_contains
       (ApplicationRoot_setitem (ApplicationRoot_init ''config.json'') ''db'' (1 :: nat))
       ''other''"
    by (simp add: ApplicationRoot_contains_def ApplicationRoot_setitem_def
        ApplicationRoot_init_def)
  from h absent_key_get_asyncget [OF h] show ?thesis
    by simp
qed

text \<open>
  The claim as stated has \<open>asyncget\<close> return \<open>None\<close> for an absent key. On the registry
  as constructed, which holds no database, \<open>asyncget\<close> of \<open>db\<close> raises \<open>KeyError\<close>.
\<close>

theorem asyncget_absent_counterexample:
  "\<not> ApplicationRoot_contains (ApplicationRoot_init ''config.json'' :: nat ApplicationRoot)
       ''db'' \<and>
   ApplicationRoot_asyncget (ApplicationRoot_init ''config.json'' :: nat ApplicationRoot) ''db''
     = Inl (KeyError ''db'') \<and>
   ApplicationRoot_asyncget (ApplicationRoot_init ''config.json'' :: nat ApplicationRoot) ''db''
     \<noteq> Inr None"
  by (simp add: ApplicationRoot_contains_def ApplicationRoot_asyncget_def
      ApplicationRoot_init_def)

end
